theory Spec2Isabelle
  imports Complex_Main
begin

section \<open>Slimmable cGAN with projection discriminator, image size 32\<close>

text \<open>
  A shallow embedding of \<^verbatim>\<open>torch_mimicry/nets/slimmable_cgan_pd/slimmable_cgan_pd_32.py\<close>.

  Tensors are nested lists of reals: a 2-d tensor of shape \<open>(N, F)\<close> is a list of \<open>N\<close> rows,
  a 4-d tensor of shape \<open>(N, C, H, W)\<close> is nested four deep. Label batches are lists of
  integers. The width multipliers are rationals: the multipliers the network is used with
  are multiples of \<open>0.25\<close>, which binary floating point represents and divides exactly.
  Layers whose classes live in \<^verbatim>\<open>torch_mimicry.modules\<close> are parameters: a layer is the
  function its \<^verbatim>\<open>forward\<close> computes, and it may raise.
\<close>

subsection \<open>Errors and sequencing\<close>

datatype error = IndexError | TypeError | RuntimeError | AssertionError | ValueError

definition bind_r :: "error + 'a \<Rightarrow> ('a \<Rightarrow> error + 'b) \<Rightarrow> error + 'b" where
  "bind_r m f = (case m of Inl e \<Rightarrow> Inl e | Inr v \<Rightarrow> f v)"

text \<open>The first error of a list of results, or all the values.\<close>

fun collect :: "(error + 'a) list \<Rightarrow> error + 'a list" where
  "collect [] = Inr []"
| "collect (r # rs) = bind_r r (\<lambda>v. bind_r (collect rs) (\<lambda>vs. Inr (v # vs)))"

subsection \<open>Python built-ins\<close>

text \<open>\<^verbatim>\<open>int(q)\<close> truncates towards zero.\<close>

definition py_int :: "rat \<Rightarrow> int" where
  "py_int q = (if 0 \<le> q then \<lfloor>q\<rfloor> else \<lceil>q\<rceil>)"

text \<open>
  \<^verbatim>\<open>xs[i]\<close> on a list or an \<^verbatim>\<open>nn.ModuleList\<close>: a negative index counts from the end,
  an index outside \<open>[-len, len)\<close> raises.
\<close>

definition getitem :: "'a list \<Rightarrow> int \<Rightarrow> error + 'a" where
  "getitem xs i =
     (if \<not> (- int (length xs) \<le> i \<and> i < int (length xs)) then Inl IndexError
      else Inr (xs ! nat (if i < 0 then i + int (length xs) else i)))"

subsection \<open>Tensors and the torch operations the file calls\<close>

type_synonym tensor2 = "real list list"
type_synonym tensor4 = "real list list list list"
type_synonym labels = "int list"

definition has_shape2 :: "tensor2 \<Rightarrow> nat \<Rightarrow> nat \<Rightarrow> bool" where
  "has_shape2 t n f = (length t = n \<and> list_all (\<lambda>r. length r = f) t)"

definition has_shape4 :: "tensor4 \<Rightarrow> nat \<Rightarrow> nat \<Rightarrow> nat \<Rightarrow> nat \<Rightarrow> bool" where
  "has_shape4 t n c h w =
     (length t = n \<and> list_all (\<lambda>s. length s = c \<and>
        list_all (\<lambda>p. length p = h \<and> list_all (\<lambda>r. length r = w) p) s) t)"

definition map4 :: "(real \<Rightarrow> real) \<Rightarrow> tensor4 \<Rightarrow> tensor4" where
  "map4 f t = map (map (map (map f))) t"

text \<open>\<^verbatim>\<open>nn.ReLU\<close>.\<close>

definition activation :: "tensor4 \<Rightarrow> tensor4" where
  "activation t = map4 (\<lambda>v. max 0 v) t"

text \<open>\<^verbatim>\<open>torch.tanh\<close>.\<close>

definition torch_tanh :: "tensor4 \<Rightarrow> tensor4" where
  "torch_tanh t = map4 tanh t"

text \<open>\<^verbatim>\<open>torch.sum(h, dim=(2, 3))\<close>: each channel plane is summed to one number.\<close>

definition torch_sum_23 :: "tensor4 \<Rightarrow> tensor2" where
  "torch_sum_23 t = map (map (\<lambda>p. sum_list (map sum_list p))) t"

text \<open>\<^verbatim>\<open>torch.sum(t, dim=1, keepdim=True)\<close>: each row is summed to a row of one number.\<close>

definition torch_sum_1_keepdim :: "tensor2 \<Rightarrow> tensor2" where
  "torch_sum_1_keepdim t = map (\<lambda>r. [sum_list r]) t"

text \<open>
  Broadcasting along one dimension. \<open>broadcast\<close> is the rule of a binary operation: equal
  sizes pair up, a size of one is repeated, anything else raises. \<open>broadcast_to\<close> is the
  rule of an in-place operation: only the right operand may be repeated, since the left
  one keeps its shape.
\<close>

definition broadcast :: "('a \<Rightarrow> 'b \<Rightarrow> error + 'c) \<Rightarrow> 'a list \<Rightarrow> 'b list \<Rightarrow> error + 'c list" where
  "broadcast f a b =
     (if length a = length b then collect (map2 f a b)
      else if length a = 1 then collect (map (f (hd a)) b)
      else if length b = 1 then collect (map (\<lambda>u. f u (hd b)) a)
      else Inl RuntimeError)"

definition broadcast_to :: "('a \<Rightarrow> 'b \<Rightarrow> error + 'c) \<Rightarrow> 'a list \<Rightarrow> 'b list \<Rightarrow> error + 'c list" where
  "broadcast_to f a b =
     (if length b = length a then collect (map2 f a b)
      else if length b = 1 then collect (map (\<lambda>u. f u (hd b)) a)
      else Inl RuntimeError)"

text \<open>\<^verbatim>\<open>a * b\<close> on 2-d tensors.\<close>

definition torch_mul :: "tensor2 \<Rightarrow> tensor2 \<Rightarrow> error + tensor2" where
  "torch_mul a b = broadcast (broadcast (\<lambda>u v. Inr (u * v))) a b"

text \<open>\<^verbatim>\<open>a += b\<close> on 2-d tensors.\<close>

definition torch_iadd :: "tensor2 \<Rightarrow> tensor2 \<Rightarrow> error + tensor2" where
  "torch_iadd a b = broadcast_to (broadcast_to (\<lambda>u v. Inr (u + v))) a b"

subsection \<open>The global FLAGS\<close>

record flags =
  width_mult :: rat
  width_mult_list :: "rat list"

subsection \<open>The discriminator\<close>

type_synonym dblock = "tensor4 \<Rightarrow> error + tensor4"
type_synonym linear = "tensor2 \<Rightarrow> error + tensor2"
type_synonym embedding = "labels \<Rightarrow> error + tensor2"

record discriminator =
  num_classes :: int
  ndf :: int
  n_share :: int
  block1s :: "dblock list"
  block2s :: "dblock list"
  block3s :: "dblock list"
  block4s :: "dblock list"
  l5s :: "linear list"
  l_ys :: "embedding list"

text \<open>
  The layer classes the constructor instantiates. Every call of a class makes a layer with
  weights of its own, so each takes the position of the call in the loop as well as the
  arguments the source passes.
\<close>

record layer_classes =
  DBlockOptimized :: "nat \<Rightarrow> int \<Rightarrow> int \<Rightarrow> dblock"
  DBlock :: "nat \<Rightarrow> int \<Rightarrow> int \<Rightarrow> bool \<Rightarrow> dblock"
  SNLinear :: "nat \<Rightarrow> int \<Rightarrow> int \<Rightarrow> linear"
  SNEmbedding :: "nat \<Rightarrow> int \<Rightarrow> int \<Rightarrow> embedding"

text \<open>
  \<^verbatim>\<open>SlimmableCGANPDDiscriminator32.__init__\<close>: the assertion on \<^verbatim>\<open>n_share\<close>, then one
  layer of each kind per entry of \<^verbatim>\<open>FLAGS.width_mult_list\<close>.
\<close>

definition SlimmableCGANPDDiscriminator32_init ::
  "layer_classes \<Rightarrow> flags \<Rightarrow> int \<Rightarrow> int \<Rightarrow> int \<Rightarrow> error + discriminator" where
  "SlimmableCGANPDDiscriminator32_init lib FLAGS num_classes' ndf' n_share' =
     (if \<not> (-1 \<le> n_share' \<and> n_share' \<le> 4) then Inl AssertionError
      else
        let ks = [0 ..< length (width_mult_list FLAGS)] in
        Inr \<lparr> num_classes = num_classes', ndf = ndf', n_share = n_share',
              block1s = map (\<lambda>k. DBlockOptimized lib k 3 ndf') ks,
              block2s = map (\<lambda>k. DBlock lib k ndf' ndf' True) ks,
              block3s = map (\<lambda>k. DBlock lib k ndf' ndf' False) ks,
              block4s = map (\<lambda>k. DBlock lib k ndf' ndf' False) ks,
              l5s = map (\<lambda>k. SNLinear lib k ndf' 1) ks,
              l_ys = map (\<lambda>k. SNEmbedding lib k num_classes' ndf') ks \<rparr>)"

text \<open>
  Modelled from the spec: \<^verbatim>\<open>SNEmbedding\<close> is in \<^verbatim>\<open>torch_mimicry.modules.layers\<close>, which
  is not part of the file. An embedding looks up a batch of labels; the lookup applied to
  \<^verbatim>\<open>None\<close> fails.
\<close>

definition call_embedding :: "embedding \<Rightarrow> labels option \<Rightarrow> error + tensor2" where
  "call_embedding m y = (case y of None \<Rightarrow> Inl TypeError | Some ls \<Rightarrow> m ls)"

text \<open>\<^verbatim>\<open>SlimmableCGANPDDiscriminator32.forward\<close>.\<close>

definition SlimmableCGANPDDiscriminator32_forward ::
  "discriminator \<Rightarrow> flags \<Rightarrow> tensor4 \<Rightarrow> labels option \<Rightarrow> error + tensor2" where
  "SlimmableCGANPDDiscriminator32_forward self FLAGS x y =
     (let idx = py_int (width_mult FLAGS / (1 / 4)) - 1 in
      bind_r (getitem (block1s self) (if n_share self > 0 then -1 else idx)) (\<lambda>b1.
      bind_r (b1 x) (\<lambda>h.
      bind_r (getitem (block2s self) (if n_share self > 1 then -1 else idx)) (\<lambda>b2.
      bind_r (b2 h) (\<lambda>h.
      bind_r (getitem (block3s self) (if n_share self > 2 then -1 else idx)) (\<lambda>b3.
      bind_r (b3 h) (\<lambda>h.
      bind_r (getitem (block4s self) (if n_share self > 3 then -1 else idx)) (\<lambda>b4.
      bind_r (b4 h) (\<lambda>h.
      let h = activation h;
          h = torch_sum_23 h in
      bind_r (getitem (l5s self) (if n_share self = -1 then -1 else idx)) (\<lambda>l5.
      bind_r (l5 h) (\<lambda>output.
      bind_r (getitem (l_ys self) idx) (\<lambda>l_y.
      bind_r (call_embedding l_y y) (\<lambda>w_y.
      bind_r (torch_mul w_y h) (\<lambda>p.
      torch_iadd output (torch_sum_1_keepdim p)))))))))))))))"

subsection \<open>More torch operations, for the generator\<close>

text \<open>\<open>chunks k n xs\<close> cuts the first \<open>k\<close> pieces of \<open>n\<close> elements off \<open>xs\<close>.\<close>

fun chunks :: "nat \<Rightarrow> nat \<Rightarrow> 'a list \<Rightarrow> 'a list list" where
  "chunks 0 n xs = []"
| "chunks (Suc k) n xs = take n xs # chunks k n (drop n xs)"

text \<open>
  \<^verbatim>\<open>h.view(n, -1, bw, bw)\<close> on a 2-d tensor. The size of the second dimension is inferred
  as the number of elements divided by \<open>n * bw * bw\<close>; torch raises when a size is
  negative, when the division leaves a remainder, and when \<open>n * bw * bw\<close> is zero (the
  inferred size would be ambiguous). The elements keep their row-major order.
\<close>

definition torch_view :: "tensor2 \<Rightarrow> nat \<Rightarrow> int \<Rightarrow> error + tensor4" where
  "torch_view h n bw =
     (let flat = concat h;
          numel = int (length flat);
          newsize = int n * bw * bw
      in if bw < 0 \<or> newsize = 0 \<or> numel mod newsize \<noteq> 0 then Inl RuntimeError
         else
           let c = nat (numel div newsize); b = nat bw
           in Inr (map (\<lambda>s. map (chunks b b) (chunks c (b * b) s))
                     (chunks n (c * b * b) flat)))"

text \<open>
  \<^verbatim>\<open>torch.randint(low, high, size=(n,))\<close>. The random generator is its stream of raw
  draws \<open>rng\<close>; draw \<open>i\<close> is reduced to the range, as torch does. An empty range raises.
\<close>

definition torch_randint :: "(nat \<Rightarrow> nat) \<Rightarrow> int \<Rightarrow> int \<Rightarrow> nat \<Rightarrow> error + labels" where
  "torch_randint rng low high n =
     (if high \<le> low then Inl RuntimeError
      else Inr (map (\<lambda>i. low + int (rng i mod nat (high - low))) [0 ..< n]))"

text \<open>\<^verbatim>\<open>xs.index(v)\<close>: the first position of \<open>v\<close>, or an error.\<close>

fun py_index :: "'a list \<Rightarrow> 'a \<Rightarrow> error + nat" where
  "py_index [] v = Inl ValueError"
| "py_index (u # us) v = (if u = v then Inr 0 else bind_r (py_index us v) (\<lambda>i. Inr (Suc i)))"

subsection \<open>The slimmable layers\<close>

text \<open>
  A slimmable layer is the arguments of its constructor call and the function its
  \<^verbatim>\<open>forward\<close> computes under the current \<^verbatim>\<open>FLAGS\<close>.
\<close>

record slimmable_linear =
  in_features_list :: "int list"
  out_features_list :: "int list"
  linear_forward :: "flags \<Rightarrow> tensor2 \<Rightarrow> error + tensor2"

record slimmable_conv2d =
  in_channels_list :: "int list"
  out_channels_list :: "int list"
  kernel_size :: int
  stride :: int
  padding :: int
  conv2d_forward :: "flags \<Rightarrow> tensor4 \<Rightarrow> error + tensor4"

record slimmable_gblock =
  in_channels :: int
  out_channels :: int
  upsample :: bool
  gblock_num_classes :: int
  gblock_forward :: "flags \<Rightarrow> tensor4 \<Rightarrow> labels \<Rightarrow> error + tensor4"

text \<open>
  Modelled from the spec: \<^verbatim>\<open>SwitchableBatchNorm2d\<close> is in
  \<^verbatim>\<open>torch_mimicry.modules.slimmable_ops\<close>, which is not part of the file. It is the
  batch normalization that maintains per-width statistics: one set of statistics \<open>'s\<close>
  for each feature count it is constructed with, selected by the active width multiplier.
\<close>

record 's switchable_batch_norm =
  num_features_list :: "int list"
  bn :: "'s list"

text \<open>
  The classes the generator's constructor instantiates. \<open>BatchNorm2d\<close> makes the initial
  statistics for a feature count, and \<open>BatchNorm2d_forward\<close> normalizes a batch with one
  set of statistics and returns the updated set.
\<close>

record 's slimmable_classes =
  SlimmableLinear :: "int list \<Rightarrow> int list \<Rightarrow> flags \<Rightarrow> tensor2 \<Rightarrow> error + tensor2"
  SlimmableGBlock :: "nat \<Rightarrow> int \<Rightarrow> int \<Rightarrow> bool \<Rightarrow> int \<Rightarrow> flags \<Rightarrow> tensor4 \<Rightarrow> labels \<Rightarrow> error + tensor4"
  SlimmableConv2d :: "int list \<Rightarrow> int list \<Rightarrow> int \<Rightarrow> int \<Rightarrow> int \<Rightarrow> flags \<Rightarrow> tensor4 \<Rightarrow> error + tensor4"
  BatchNorm2d :: "int \<Rightarrow> 's"
  BatchNorm2d_forward :: "'s \<Rightarrow> tensor4 \<Rightarrow> (error + tensor4) \<times> 's"


text \<open>
  Modelled from the spec: the forward pass of \<^verbatim>\<open>SwitchableBatchNorm2d\<close> finds the position
  of the active width multiplier in the width list and normalizes with the statistics at
  that position, which alone are updated.
\<close>

definition SwitchableBatchNorm2d_forward ::
  "'s slimmable_classes \<Rightarrow> 's switchable_batch_norm \<Rightarrow> flags \<Rightarrow> tensor4 \<Rightarrow>
   (error + tensor4) \<times> 's switchable_batch_norm" where
  "SwitchableBatchNorm2d_forward lib self FLAGS input =
     (case py_index (width_mult_list FLAGS) (width_mult FLAGS) of
        Inl e \<Rightarrow> (Inl e, self)
      | Inr idx \<Rightarrow>
          (case getitem (bn self) (int idx) of
             Inl e \<Rightarrow> (Inl e, self)
           | Inr s \<Rightarrow>
               (case BatchNorm2d_forward lib s input of
                  (out, s') \<Rightarrow> (out, self \<lparr> bn := (bn self) [idx := s'] \<rparr>))))"

subsection \<open>The generator\<close>

record 's generator =
  num_classes_G :: int
  nz :: int
  ngf :: int
  bottom_width :: int
  l1 :: slimmable_linear
  block2 :: slimmable_gblock
  block3 :: slimmable_gblock
  block4 :: slimmable_gblock
  b5 :: "'s switchable_batch_norm"
  c5 :: slimmable_conv2d


text \<open>
  \<^verbatim>\<open>SlimmableCGANPDGenerator32.forward\<close>. It returns the result and the generator, whose
  normalization statistics the call may have updated (also when a later layer raises).
\<close>

definition SlimmableCGANPDGenerator32_forward ::
  "'s slimmable_classes \<Rightarrow> (nat \<Rightarrow> nat) \<Rightarrow> 's generator \<Rightarrow> flags \<Rightarrow> tensor2 \<Rightarrow> labels option \<Rightarrow>
   (error + tensor4) \<times> 's generator" where
  "SlimmableCGANPDGenerator32_forward lib rng self FLAGS x y =
     (case
        bind_r (case y of None \<Rightarrow> torch_randint rng 0 (num_classes_G self) (length x)
                        | Some ls \<Rightarrow> Inr ls) (\<lambda>y.
        bind_r (linear_forward (l1 self) FLAGS x) (\<lambda>h.
        bind_r (torch_view h (length x) (bottom_width self)) (\<lambda>h.
        bind_r (gblock_forward (block2 self) FLAGS h y) (\<lambda>h.
        bind_r (gblock_forward (block3 self) FLAGS h y) (\<lambda>h.
        gblock_forward (block4 self) FLAGS h y)))))
      of Inl e \<Rightarrow> (Inl e, self)
       | Inr h \<Rightarrow>
           (case SwitchableBatchNorm2d_forward lib (b5 self) FLAGS h of
              (r, b5') \<Rightarrow>
                (bind_r r (\<lambda>h.
                 let h = activation h in
                 bind_r (conv2d_forward (c5 self) FLAGS h) (\<lambda>h. Inr (torch_tanh h))),
                 self \<lparr> b5 := b5' \<rparr>)))"

subsection \<open>The discriminator's computation, in the words of the specification\<close>

text \<open>
  One branch of a per-width list: the last one when the layer is shared, the one at the
  width's index otherwise.
\<close>

definition branch :: "'a list \<Rightarrow> bool \<Rightarrow> nat \<Rightarrow> 'a" where
  "branch xs shared i = (if shared then last xs else xs ! i)"

text \<open>The four D-blocks, one after the other.\<close>

definition d_blocks :: "dblock \<Rightarrow> dblock \<Rightarrow> dblock \<Rightarrow> dblock \<Rightarrow> tensor4 \<Rightarrow> error + tensor4" where
  "d_blocks b1 b2 b3 b4 x = bind_r (b1 x) (\<lambda>h. bind_r (b2 h) (\<lambda>h. bind_r (b3 h) b4))"

text \<open>
  The projection logits of given layers: with \<open>h\<close> the global sum pooling of the rectified
  output of the D-blocks, the linear layer of \<open>h\<close> plus the sum over the features of the
  label embedding times \<open>h\<close>.
\<close>

definition projection_logits ::
  "dblock \<Rightarrow> dblock \<Rightarrow> dblock \<Rightarrow> dblock \<Rightarrow> linear \<Rightarrow> embedding \<Rightarrow>
   tensor4 \<Rightarrow> labels option \<Rightarrow> error + tensor2" where
  "projection_logits b1 b2 b3 b4 l5 l_y x y =
     bind_r (d_blocks b1 b2 b3 b4 x) (\<lambda>h4.
     bind_r (l5 (torch_sum_23 (activation h4))) (\<lambda>lin.
     bind_r (call_embedding l_y y) (\<lambda>w_y.
     bind_r (torch_mul w_y (torch_sum_23 (activation h4))) (\<lambda>p.
     torch_iadd lin (torch_sum_1_keepdim p)))))"

subsection \<open>The generator's computation, in the words of the specification\<close>

text \<open>
  The fixed composition \<open>tanh (c5 (ReLU (b5 (block4 (block3 (block2 (reshape (l1 x)) y) y) y))))\<close>
  of given layer functions, each of which may raise.
\<close>

definition generator_composition ::
  "(tensor2 \<Rightarrow> error + tensor2) \<Rightarrow> (tensor2 \<Rightarrow> error + tensor4) \<Rightarrow>
   (tensor4 \<Rightarrow> labels \<Rightarrow> error + tensor4) \<Rightarrow> (tensor4 \<Rightarrow> labels \<Rightarrow> error + tensor4) \<Rightarrow>
   (tensor4 \<Rightarrow> labels \<Rightarrow> error + tensor4) \<Rightarrow> (tensor4 \<Rightarrow> error + tensor4) \<Rightarrow>
   (tensor4 \<Rightarrow> error + tensor4) \<Rightarrow> tensor2 \<Rightarrow> labels \<Rightarrow> error + tensor4" where
  "generator_composition l1' reshape block2' block3' block4' b5' c5' x y =
     bind_r (bind_r (bind_r (bind_r (bind_r (bind_r (bind_r
       (l1' x) reshape) (\<lambda>h. block2' h y)) (\<lambda>h. block3' h y)) (\<lambda>h. block4' h y)) b5')
       (\<lambda>h. c5' (activation h))) (\<lambda>h. Inr (torch_tanh h))"

subsection \<open>Shapes of the generator's layers\<close>







subsection \<open>Example layers and configurations\<close>

definition shift :: "real \<Rightarrow> dblock" where
  "shift c t = Inr (map4 (\<lambda>v. v + c) t)"

definition scale_sum :: "real \<Rightarrow> linear" where
  "scale_sum c t = Inr (map (\<lambda>r. [c * sum_list r]) t)"

definition label_plus :: "real \<Rightarrow> nat \<Rightarrow> embedding" where
  "label_plus c f ls = Inr (map (\<lambda>l. replicate f (c + of_int l)) ls)"

definition example_classes :: layer_classes where
  "example_classes =
     \<lparr> DBlockOptimized = (\<lambda>k a b. shift (of_nat k)),
       DBlock = (\<lambda>k a b d. shift (of_nat k)),
       SNLinear = (\<lambda>k a b. scale_sum (of_nat (Suc k))),
       SNEmbedding = (\<lambda>k n e. label_plus (of_nat k) (nat e)) \<rparr>"

definition example_flags :: "rat \<Rightarrow> flags" where
  "example_flags w = \<lparr> width_mult = w, width_mult_list = [1 / 4, 1 / 2, 3 / 4, 1] \<rparr>"

text \<open>The discriminator the constructor builds from the example classes, with two features.\<close>

definition example_discriminator :: "int \<Rightarrow> discriminator" where
  "example_discriminator s =
     \<lparr> num_classes = 10, ndf = 2, n_share = s,
       block1s = map (\<lambda>k. shift (of_nat k)) [0 ..< 4],
       block2s = map (\<lambda>k. shift (of_nat k)) [0 ..< 4],
       block3s = map (\<lambda>k. shift (of_nat k)) [0 ..< 4],
       block4s = map (\<lambda>k. shift (of_nat k)) [0 ..< 4],
       l5s = map (\<lambda>k. scale_sum (of_nat (Suc k))) [0 ..< 4],
       l_ys = map (\<lambda>k. label_plus (of_nat k) 2) [0 ..< 4] \<rparr>"

text \<open>One image of two channels and two by two pixels.\<close>

definition example_x :: tensor4 where
  "example_x = [[[[1, 2], [3, 4]], [[0, -1], [1, 1]]]]"

text \<open>
  Example slimmable layers. The linear layer sets every output feature of the active width
  to the sum of the input features; the block adds the label to every pixel and then
  repeats each pixel twice along the height and the width; the convolution copies the
  first channel to every output channel; batch normalization counts the batches it has
  seen and returns its input.
\<close>

definition double :: "'a list \<Rightarrow> 'a list" where
  "double xs = concat (map (\<lambda>v. [v, v]) xs)"








section \<open>Properties\<close>

subsection \<open>Sequencing and indexing\<close>

lemma bind_r_Inr [simp]: "bind_r (Inr v) f = f v"
  by (simp add: bind_r_def)

lemma bind_r_Inl [simp]: "bind_r (Inl e) f = Inl e"
  by (simp add: bind_r_def)

lemma bind_r_assoc: "bind_r (bind_r m f) g = bind_r m (\<lambda>v. bind_r (f v) g)"
  by (cases m) simp_all

lemma getitem_nth: "0 \<le> i \<Longrightarrow> i < int (length xs) \<Longrightarrow> getitem xs i = Inr (xs ! nat i)"
  by (simp add: getitem_def)

lemma getitem_last: "xs \<noteq> [] \<Longrightarrow> getitem xs (- 1) = Inr (last xs)"
  by (cases xs rule: rev_cases) (simp_all add: getitem_def Let_def nat_add_distrib)

lemma getitem_branch:
  "xs \<noteq> [] \<Longrightarrow> 0 \<le> i \<Longrightarrow> i < int (length xs) \<Longrightarrow>
   getitem xs (if shared then - 1 else i) = Inr (branch xs shared (nat i))"
  by (simp add: branch_def getitem_nth getitem_last)

lemma py_int_quarters: "py_int ((of_nat n / 4) / (1 / 4)) = int n"
  by (simp add: py_int_def)

subsection \<open>The discriminator's constructor\<close>

lemma init_Inr:
  assumes "SlimmableCGANPDDiscriminator32_init lib fli nc nd ns = Inr d"
  shows "- 1 \<le> ns" "ns \<le> 4" "n_share d = ns"
    "length (block1s d) = length (width_mult_list fli)"
    "length (block2s d) = length (width_mult_list fli)"
    "length (block3s d) = length (width_mult_list fli)"
    "length (block4s d) = length (width_mult_list fli)"
    "length (l5s d) = length (width_mult_list fli)"
    "length (l_ys d) = length (width_mult_list fli)"
  using assms
  by (auto simp: SlimmableCGANPDDiscriminator32_init_def Let_def split: if_splits)

lemma example_init:
  "- 1 \<le> s \<Longrightarrow> s \<le> 4 \<Longrightarrow>
   SlimmableCGANPDDiscriminator32_init example_classes (example_flags w) 10 2 s
     = Inr (example_discriminator s)"
  by (simp add: SlimmableCGANPDDiscriminator32_init_def example_classes_def example_flags_def
      example_discriminator_def upt_rec)

subsection \<open>Routing in the discriminator's forward pass\<close>

text \<open>
  With per-width lists of one length and the width's index inside them, every lookup of
  the forward pass succeeds, and the pass is the projection computation on the branches
  that \<^verbatim>\<open>n_share\<close> and the index select.
\<close>

lemma forward_as_projection:
  assumes len: "length (block1s d) = n" "length (block2s d) = n" "length (block3s d) = n"
      "length (block4s d) = n" "length (l5s d) = n" "length (l_ys d) = n"
    and idx: "0 \<le> py_int (width_mult fl / (1 / 4)) - 1"
      "py_int (width_mult fl / (1 / 4)) - 1 < int n"
  shows "SlimmableCGANPDDiscriminator32_forward d fl x y =
     projection_logits
       (branch (block1s d) (n_share d > 0) (nat (py_int (width_mult fl / (1 / 4)) - 1)))
       (branch (block2s d) (n_share d > 1) (nat (py_int (width_mult fl / (1 / 4)) - 1)))
       (branch (block3s d) (n_share d > 2) (nat (py_int (width_mult fl / (1 / 4)) - 1)))
       (branch (block4s d) (n_share d > 3) (nat (py_int (width_mult fl / (1 / 4)) - 1)))
       (branch (l5s d) (n_share d = - 1) (nat (py_int (width_mult fl / (1 / 4)) - 1)))
       (l_ys d ! nat (py_int (width_mult fl / (1 / 4)) - 1)) x y"
proof -
  define i where "i = py_int (width_mult fl / (1 / 4)) - 1"
  have n: "0 < n" using idx by linarith
  have ne: "block1s d \<noteq> []" "block2s d \<noteq> []" "block3s d \<noteq> []" "block4s d \<noteq> []"
      "l5s d \<noteq> []"
    using len n by auto
  have g:
    "getitem (block1s d) (if n_share d > 0 then - 1 else i)
       = Inr (branch (block1s d) (n_share d > 0) (nat i))"
    "getitem (block2s d) (if n_share d > 1 then - 1 else i)
       = Inr (branch (block2s d) (n_share d > 1) (nat i))"
    "getitem (block3s d) (if n_share d > 2 then - 1 else i)
       = Inr (branch (block3s d) (n_share d > 2) (nat i))"
    "getitem (block4s d) (if n_share d > 3 then - 1 else i)
       = Inr (branch (block4s d) (n_share d > 3) (nat i))"
    "getitem (l5s d) (if n_share d = - 1 then - 1 else i)
       = Inr (branch (l5s d) (n_share d = - 1) (nat i))"
    "getitem (l_ys d) i = Inr (l_ys d ! nat i)"
    using ne len idx by (simp_all add: getitem_branch getitem_nth i_def)
  show ?thesis
    unfolding SlimmableCGANPDDiscriminator32_forward_def projection_logits_def d_blocks_def
      Let_def i_def [symmetric]
    by (simp only: g bind_r_Inr bind_r_assoc)
qed

text \<open>
  C1, as amended. A discriminator built with \<^verbatim>\<open>n_share = 0\<close> (the default) over the width
  list \<open>0.25, 0.5, ...\<close> and called at the \<open>k\<close>-th width of the list computes the index
  \<open>int(width_mult / 0.25) - 1 = k\<close> and sends the input through branch \<open>k\<close> of every one
  of the six per-width lists: the one instance runs at each width of the list, chosen
  when it is called.
\<close>

theorem default_forward_uses_width_branch_of_every_list:
  assumes "SlimmableCGANPDDiscriminator32_init lib fli nc nd 0 = Inr d"
    and "width_mult_list fli = map (\<lambda>k. of_nat (Suc k) / 4) [0 ..< m]"
    and "k < m" and "width_mult fl = width_mult_list fli ! k"
  shows "py_int (width_mult fl / (1 / 4)) - 1 = int k \<and>
     SlimmableCGANPDDiscriminator32_forward d fl x y =
       projection_logits (block1s d ! k) (block2s d ! k) (block3s d ! k) (block4s d ! k)
         (l5s d ! k) (l_ys d ! k) x y"
proof -
  have w: "width_mult fl = of_nat (Suc k) / 4"
    using assms(2-4) by simp
  have i: "py_int (width_mult fl / (1 / 4)) - 1 = int k"
    unfolding w py_int_quarters by simp
  have m: "length (width_mult_list fli) = m"
    using assms(2) by simp
  note f = init_Inr [OF assms(1)]
  have "SlimmableCGANPDDiscriminator32_forward d fl x y =
       projection_logits (block1s d ! k) (block2s d ! k) (block3s d ! k) (block4s d ! k)
         (l5s d ! k) (l_ys d ! k) x y"
    using forward_as_projection [of d m fl x y] f m i assms(3)
    by (simp add: branch_def)
  with i show ?thesis by simp
qed

theorem default_forward_uses_width_branch_of_every_list_witness:
  "SlimmableCGANPDDiscriminator32_init example_classes (example_flags 1) 10 2 0
     = Inr (example_discriminator 0) \<and>
   width_mult_list (example_flags 1) = map (\<lambda>k. of_nat (Suc k) / 4) [0 ..< 4] \<and>
   (2 :: nat) < 4 \<and>
   width_mult (example_flags (3 / 4)) = width_mult_list (example_flags 1) ! 2 \<and>
   py_int (width_mult (example_flags (3 / 4)) / (1 / 4)) - 1 = 2 \<and>
   SlimmableCGANPDDiscriminator32_forward (example_discriminator 0) (example_flags (3 / 4))
       example_x (Some [3]) =
     projection_logits (shift 2) (shift 2) (shift 2) (shift 2) (scale_sum 3) (label_plus 2 2)
       example_x (Some [3])"
proof -
  have h1: "SlimmableCGANPDDiscriminator32_init example_classes (example_flags 1) 10 2 0
     = Inr (example_discriminator 0)"
    by (simp add: example_init)
  have h2: "width_mult_list (example_flags 1) = map (\<lambda>k. of_nat (Suc k) / 4) [0 ..< 4]"
    by (simp add: example_flags_def upt_rec)
  have h3: "(2 :: nat) < 4" by simp
  have h4: "width_mult (example_flags (3 / 4)) = width_mult_list (example_flags 1) ! 2"
    by (simp add: example_flags_def)
  show ?thesis
    using h1 h2 h3 h4
      default_forward_uses_width_branch_of_every_list [OF h1 h2 h3 h4, of example_x "Some [3]"]
    by (simp add: example_discriminator_def upt_rec)
qed

text \<open>
  C1 as stated fails for a discriminator that shares layers: built with \<^verbatim>\<open>n_share = 4\<close>
  and called at width \<open>0.25\<close>, whose index is \<open>0\<close>, the forward pass does not compute what
  branch \<open>0\<close> of every list computes, since the four blocks come from the last branch.
\<close>

theorem shared_forward_leaves_width_branch:
  "SlimmableCGANPDDiscriminator32_init example_classes (example_flags 1) 10 2 4
     = Inr (example_discriminator 4) \<and>
   width_mult (example_flags (1 / 4)) \<in> set (width_mult_list (example_flags 1)) \<and>
   py_int (width_mult (example_flags (1 / 4)) / (1 / 4)) - 1 = 0 \<and>
   SlimmableCGANPDDiscriminator32_forward (example_discriminator 4) (example_flags (1 / 4))
       example_x (Some [3])
   \<noteq> projection_logits
         (block1s (example_discriminator 4) ! 0) (block2s (example_discriminator 4) ! 0)
         (block3s (example_discriminator 4) ! 0) (block4s (example_discriminator 4) ! 0)
         (l5s (example_discriminator 4) ! 0) (l_ys (example_discriminator 4) ! 0)
         example_x (Some [3])"
proof -
  have a: "SlimmableCGANPDDiscriminator32_init example_classes (example_flags 1) 10 2 4
     = Inr (example_discriminator 4)"
    by (simp add: example_init)
  have b: "width_mult (example_flags (1 / 4)) \<in> set (width_mult_list (example_flags 1))"
    by (simp add: example_flags_def)
  have c: "py_int (width_mult (example_flags (1 / 4)) / (1 / 4)) - 1 = 0"
    by (simp add: example_flags_def py_int_def)
  have d: "SlimmableCGANPDDiscriminator32_forward (example_discriminator 4)
       (example_flags (1 / 4)) example_x (Some [3])
   \<noteq> projection_logits
         (block1s (example_discriminator 4) ! 0) (block2s (example_discriminator 4) ! 0)
         (block3s (example_discriminator 4) ! 0) (block4s (example_discriminator 4) ! 0)
         (l5s (example_discriminator 4) ! 0) (l_ys (example_discriminator 4) ! 0)
         example_x (Some [3])"
    by code_simp
  from a b c d show ?thesis by blast
qed




text \<open>
  C8. A discriminator that the constructor returned has \<open>-1 \<le> n_share \<le> 4\<close>, and called
  at a width whose index \<open>idx\<close> lies in the lists its forward pass is the projection
  computation on these branches: block \<open>k\<close> is the last branch if \<open>n_share > k - 1\<close> and
  branch \<open>idx\<close> otherwise, the linear layer is the last branch if \<open>n_share = -1\<close> and
  branch \<open>idx\<close> otherwise, the label embedding is branch \<open>idx\<close>.
\<close>

theorem forward_routing_by_n_share:
  assumes "SlimmableCGANPDDiscriminator32_init lib fli nc nd ns = Inr d"
    and "idx = py_int (width_mult fl / (1 / 4)) - 1"
    and "0 \<le> idx" and "idx < int (length (width_mult_list fli))"
  shows "- 1 \<le> n_share d \<and> n_share d \<le> 4 \<and>
     SlimmableCGANPDDiscriminator32_forward d fl x y =
       projection_logits
         (branch (block1s d) (n_share d > 0) (nat idx))
         (branch (block2s d) (n_share d > 1) (nat idx))
         (branch (block3s d) (n_share d > 2) (nat idx))
         (branch (block4s d) (n_share d > 3) (nat idx))
         (branch (l5s d) (n_share d = - 1) (nat idx))
         (l_ys d ! nat idx) x y"
  using init_Inr [OF assms(1)] assms(2-4)
  by (simp add: forward_as_projection [where n = "length (width_mult_list fli)"])

theorem forward_routing_by_n_share_witness:
  "SlimmableCGANPDDiscriminator32_init example_classes (example_flags 1) 10 2 2
     = Inr (example_discriminator 2) \<and>
   (1 :: int) = py_int (width_mult (example_flags (1 / 2)) / (1 / 4)) - 1 \<and>
   (0 :: int) \<le> 1 \<and> (1 :: int) < int (length (width_mult_list (example_flags 1))) \<and>
   SlimmableCGANPDDiscriminator32_forward (example_discriminator 2) (example_flags (1 / 2))
       example_x (Some [3]) =
     projection_logits (shift 3) (shift 3) (shift 1) (shift 1) (scale_sum 2) (label_plus 1 2)
       example_x (Some [3])"
proof -
  have h1: "SlimmableCGANPDDiscriminator32_init example_classes (example_flags 1) 10 2 2
     = Inr (example_discriminator 2)"
    by (simp add: example_init)
  have h2: "(1 :: int) = py_int (width_mult (example_flags (1 / 2)) / (1 / 4)) - 1"
    by (simp add: example_flags_def py_int_def)
  have h3: "(0 :: int) \<le> 1" by simp
  have h4: "(1 :: int) < int (length (width_mult_list (example_flags 1)))"
    by (simp add: example_flags_def)
  show ?thesis
    using h1 h2 h3 h4 forward_routing_by_n_share [OF h1 h2 h3 h4, of example_x "Some [3]"]
    by (simp add: example_discriminator_def branch_def upt_rec)
qed

subsection \<open>The generator's constructor\<close>



subsection \<open>Per-width normalization statistics\<close>




subsection \<open>The generator's forward pass\<close>

lemma fst_case_sum_prod:
  "fst (case m of Inl e \<Rightarrow> (Inl e, s) | Inr h \<Rightarrow> (case F h of (r, b) \<Rightarrow> (G r, H b)))
     = bind_r m (\<lambda>h. G (fst (F h)))"
  by (cases m) (simp_all split: prod.splits)

text \<open>
  C5. On a noise batch and a label batch the result of the generator's forward pass is
  the composition \<open>tanh (c5 (ReLU (b5 (block4 (block3 (block2 (reshape (l1 x)) y) y) y))))\<close>
  of its layers, the reshape being the view to \<open>(N, -1, bottom_width, bottom_width)\<close>
  and each block receiving the labels.
\<close>

theorem forward_is_fixed_composition:
  "fst (SlimmableCGANPDGenerator32_forward lib rng g fl x (Some y)) =
     generator_composition (linear_forward (l1 g) fl)
       (\<lambda>h. torch_view h (length x) (bottom_width g))
       (gblock_forward (block2 g) fl) (gblock_forward (block3 g) fl)
       (gblock_forward (block4 g) fl)
       (\<lambda>h. fst (SwitchableBatchNorm2d_forward lib (b5 g) fl h))
       (conv2d_forward (c5 g) fl) x y"
  unfolding SlimmableCGANPDGenerator32_forward_def generator_composition_def fst_case_sum_prod
    Let_def
  by (simp only: bind_r_assoc bind_r_Inr option.case)

subsection \<open>Missing labels\<close>









subsection \<open>Broadcasting on tensors of equal shape\<close>

lemma collect_map_Inr: "collect (map (\<lambda>x. Inr (g x)) xs) = Inr (map g xs)"
  by (induction xs) simp_all

lemma collect_map2_Inr:
  assumes "\<And>u v. (u, v) \<in> set (zip a b) \<Longrightarrow> f u v = Inr (g u v)"
  shows "collect (map2 f a b) = Inr (map2 g a b)"
proof -
  have "map2 f a b = map (\<lambda>p. Inr (case p of (u, v) \<Rightarrow> g u v)) (zip a b)"
    using assms by (intro map_cong) auto
  then show ?thesis
    by (simp only: collect_map_Inr)
qed

lemma broadcast_equal_lengths:
  assumes "length a = length b"
    and "\<And>u v. (u, v) \<in> set (zip a b) \<Longrightarrow> f u v = Inr (g u v)"
  shows "broadcast f a b = Inr (map2 g a b)"
  using assms by (simp add: broadcast_def collect_map2_Inr)

lemma broadcast_to_equal_lengths:
  assumes "length a = length b"
    and "\<And>u v. (u, v) \<in> set (zip a b) \<Longrightarrow> f u v = Inr (g u v)"
  shows "broadcast_to f a b = Inr (map2 g a b)"
  using assms by (simp add: broadcast_to_def collect_map2_Inr)

lemma has_shape2_row: "has_shape2 t n f \<Longrightarrow> r \<in> set t \<Longrightarrow> length r = f"
  by (simp add: has_shape2_def list_all_iff)

lemma torch_mul_same_shape:
  assumes "has_shape2 a n f" "has_shape2 b n f"
  shows "torch_mul a b = Inr (map2 (map2 (*)) a b)"
  unfolding torch_mul_def
proof (rule broadcast_equal_lengths)
  show "length a = length b"
    using assms by (simp add: has_shape2_def)
next
  fix u v assume "(u, v) \<in> set (zip a b)"
  then have "u \<in> set a" "v \<in> set b"
    by (auto dest: set_zip_leftD set_zip_rightD)
  then have "length u = length v"
    using assms by (simp add: has_shape2_row)
  then show "broadcast (\<lambda>u v. Inr (u * v)) u v = Inr (map2 (*) u v)"
    by (rule broadcast_equal_lengths) simp
qed

lemma torch_iadd_same_shape:
  assumes "has_shape2 a n f" "has_shape2 b n f"
  shows "torch_iadd a b = Inr (map2 (map2 (+)) a b)"
  unfolding torch_iadd_def
proof (rule broadcast_to_equal_lengths)
  show "length a = length b"
    using assms by (simp add: has_shape2_def)
next
  fix u v assume "(u, v) \<in> set (zip a b)"
  then have "u \<in> set a" "v \<in> set b"
    by (auto dest: set_zip_leftD set_zip_rightD)
  then have "length u = length v"
    using assms by (simp add: has_shape2_row)
  then show "broadcast_to (\<lambda>u v. Inr (u + v)) u v = Inr (map2 (+) u v)"
    by (rule broadcast_to_equal_lengths) simp
qed

lemma sum_list_products:
  assumes "length a = f" "length b = f"
  shows "sum_list (map2 (*) a b) = (\<Sum>c < f. a ! c * b ! (c :: nat) :: real)"
proof -
  have "sum_list (map2 (*) a b) = (\<Sum>c = 0 ..< f. map2 (*) a b ! c)"
    using assms by (simp add: sum_list_sum_nth)
  also have "\<dots> = (\<Sum>c = 0 ..< f. a ! c * b ! c)"
    using assms by (intro sum.cong) simp_all
  finally show ?thesis
    by (simp add: atLeast0LessThan)
qed

lemma has_shape4_nth:
  assumes "has_shape4 t n c h w" "i < n" "j < c"
  shows "length (t ! i) = c" "length (t ! i ! j) = h" "\<forall>r \<in> set (t ! i ! j). length r = w"
proof -
  have i: "t ! i \<in> set t" using assms by (simp add: has_shape4_def)
  with assms(1) show l: "length (t ! i) = c"
    by (simp add: has_shape4_def list_all_iff)
  then have j: "t ! i ! j \<in> set (t ! i)" using assms(3) by simp
  with i assms(1) show "length (t ! i ! j) = h" "\<forall>r \<in> set (t ! i ! j). length r = w"
    by (auto simp: has_shape4_def list_all_iff)
qed

lemma pooled_shape:
  assumes "has_shape4 t n c h w"
  shows "has_shape2 (torch_sum_23 (activation t)) n c"
  using assms
  by (auto simp: has_shape4_def has_shape2_def torch_sum_23_def activation_def map4_def
      list_all_iff)

lemma pooled_nth:
  assumes "has_shape4 t n c h w" "i < n" "j < c"
  shows "torch_sum_23 (activation t) ! i ! j = (\<Sum>r < h. \<Sum>s < w. max 0 (t ! i ! j ! r ! s))"
proof -
  note s = has_shape4_nth [OF assms]
  have len: "length t = n" using assms(1) by (simp add: has_shape4_def)
  have "torch_sum_23 (activation t) ! i ! j
      = sum_list (map (\<lambda>r. sum_list (map (\<lambda>v. max 0 v) r)) (t ! i ! j))"
    using assms(2,3) len s(1)
    by (simp add: torch_sum_23_def activation_def map4_def comp_def)
  also have "\<dots> = (\<Sum>r = 0 ..< h. sum_list (map (\<lambda>v. max 0 v) (t ! i ! j ! r)))"
    using s(2) by (simp add: sum_list_sum_nth)
  also have "\<dots> = (\<Sum>r = 0 ..< h. \<Sum>q = 0 ..< w. max 0 (t ! i ! j ! r ! q))"
  proof (intro sum.cong refl)
    fix r assume "r \<in> {0 ..< h}"
    then have "t ! i ! j ! r \<in> set (t ! i ! j)" using s(2) by simp
    then have "length (t ! i ! j ! r) = w" using s(3) by blast
    then show "sum_list (map (\<lambda>v. max 0 v) (t ! i ! j ! r)) = (\<Sum>q = 0 ..< w. max 0 (t ! i ! j ! r ! q))"
      by (simp add: sum_list_sum_nth)
  qed
  finally show ?thesis
    by (simp add: atLeast0LessThan)
qed

lemma logits_of_layers:
  assumes h: "has_shape2 h n f" and lin: "has_shape2 lin n 1" and w: "has_shape2 w_y n f"
  shows "\<exists>out. bind_r (torch_mul w_y h) (\<lambda>p. torch_iadd lin (torch_sum_1_keepdim p)) = Inr out \<and>
     has_shape2 out n 1 \<and>
     (\<forall>i < n. out ! i ! 0 = lin ! i ! 0 + (\<Sum>c < f. w_y ! i ! c * h ! i ! c))"
proof -
  let ?p = "map2 (map2 (*)) w_y h"
  let ?s = "torch_sum_1_keepdim ?p"
  let ?out = "map2 (map2 (+)) lin ?s"
  have len: "length h = n" "length lin = n" "length w_y = n"
    using assms by (simp_all add: has_shape2_def)
  have s: "has_shape2 ?s n 1"
    using len by (simp add: has_shape2_def torch_sum_1_keepdim_def list_all_iff)
  have "bind_r (torch_mul w_y h) (\<lambda>p. torch_iadd lin (torch_sum_1_keepdim p)) = Inr ?out"
    by (simp add: torch_mul_same_shape [OF w h] torch_iadd_same_shape [OF lin s])
  moreover have "has_shape2 ?out n 1"
    using len lin
    by (auto simp: has_shape2_def torch_sum_1_keepdim_def list_all_iff set_zip)
  moreover have "?out ! i ! 0 = lin ! i ! 0 + (\<Sum>c < f. w_y ! i ! c * h ! i ! c)" if "i < n" for i
  proof -
    have r: "length (w_y ! i) = f" "length (h ! i) = f" "length (lin ! i) = 1"
      using that len assms by (simp_all add: has_shape2_row)
    then obtain a where a: "lin ! i = [a]"
      by (cases "lin ! i") simp_all
    have "?out ! i = map2 (+) (lin ! i) [sum_list (map2 (*) (w_y ! i) (h ! i))]"
      using that len by (simp add: torch_sum_1_keepdim_def)
    then show ?thesis
      using a r by (simp add: sum_list_products)
  qed
  ultimately show ?thesis by blast
qed



text \<open>
  C6. Take a discriminator the constructor returned, called at a width whose index lies
  in its lists, on an image batch whose four selected D-blocks give a tensor \<open>h4\<close> of
  shape \<open>(n, f, hh, ww)\<close>, with a selected linear layer that gives \<open>lin\<close> of shape
  \<open>(n, 1)\<close> and a label embedding that gives \<open>w_y\<close> of shape \<open>(n, f)\<close>. Then the forward
  pass returns a tensor of shape \<open>(n, 1)\<close>, one logit per sample: the linear layer's
  value plus the sum over the features of the embedding times \<open>h\<close>, where \<open>h\<close> is the sum
  over height and width of the rectified \<open>h4\<close>.
\<close>

theorem forward_gives_projection_logits:
  assumes "SlimmableCGANPDDiscriminator32_init lib fli nc nd ns = Inr d"
    and "idx = py_int (width_mult fl / (1 / 4)) - 1"
    and "0 \<le> idx" and "idx < int (length (width_mult_list fli))"
    and "d_blocks (branch (block1s d) (n_share d > 0) (nat idx))
           (branch (block2s d) (n_share d > 1) (nat idx))
           (branch (block3s d) (n_share d > 2) (nat idx))
           (branch (block4s d) (n_share d > 3) (nat idx)) x = Inr h4"
    and "has_shape4 h4 n f hh ww"
    and "h = torch_sum_23 (activation h4)"
    and "branch (l5s d) (n_share d = - 1) (nat idx) h = Inr lin"
    and "has_shape2 lin n 1"
    and "(l_ys d ! nat idx) y = Inr w_y"
    and "has_shape2 w_y n f"
  shows "\<exists>out. SlimmableCGANPDDiscriminator32_forward d fl x (Some y) = Inr out \<and>
     has_shape2 out n 1 \<and>
     (\<forall>i < n. out ! i ! 0 = lin ! i ! 0 + (\<Sum>c < f. w_y ! i ! c * h ! i ! c)) \<and>
     (\<forall>i < n. \<forall>c < f. h ! i ! c = (\<Sum>r < hh. \<Sum>s < ww. max 0 (h4 ! i ! c ! r ! s)))"
proof -
  note f = init_Inr [OF assms(1)]
  have hs: "has_shape2 h n f"
    unfolding assms(7) using assms(6) by (rule pooled_shape)
  have "SlimmableCGANPDDiscriminator32_forward d fl x (Some y) =
      bind_r (torch_mul w_y h) (\<lambda>p. torch_iadd lin (torch_sum_1_keepdim p))"
    using forward_as_projection [of d "length (width_mult_list fli)" fl x "Some y"] f
      assms(2-5,8,10)
    by (simp add: projection_logits_def call_embedding_def assms(7) [symmetric])
  moreover note logits_of_layers [OF hs assms(9) assms(11)]
  moreover have "\<forall>i < n. \<forall>c < f. h ! i ! c = (\<Sum>r < hh. \<Sum>s < ww. max 0 (h4 ! i ! c ! r ! s))"
    unfolding assms(7) using pooled_nth [OF assms(6)] by blast
  ultimately show ?thesis by auto
qed


theorem forward_gives_projection_logits_witness:
  "SlimmableCGANPDDiscriminator32_init example_classes (example_flags 1) 10 2 0
     = Inr (example_discriminator 0) \<and>
   (0 :: int) = py_int (width_mult (example_flags (1 / 4)) / (1 / 4)) - 1 \<and>
   (0 :: int) \<le> 0 \<and> (0 :: int) < int (length (width_mult_list (example_flags 1))) \<and>
   d_blocks (branch (block1s (example_discriminator 0)) (n_share (example_discriminator 0) > 0) (nat 0))
     (branch (block2s (example_discriminator 0)) (n_share (example_discriminator 0) > 1) (nat 0))
     (branch (block3s (example_discriminator 0)) (n_share (example_discriminator 0) > 2) (nat 0))
     (branch (block4s (example_discriminator 0)) (n_share (example_discriminator 0) > 3) (nat 0))
     example_x = Inr example_x \<and>
   has_shape4 example_x 1 2 2 2 \<and>
   [[10, 2]] = torch_sum_23 (activation example_x) \<and>
   branch (l5s (example_discriminator 0)) (n_share (example_discriminator 0) = - 1) (nat 0)
     [[10, 2]] = Inr [[12]] \<and>
   has_shape2 [[12]] 1 1 \<and>
   (l_ys (example_discriminator 0) ! nat 0) [3] = Inr [[3, 3]] \<and>
   has_shape2 [[3, 3]] 1 2 \<and>
   SlimmableCGANPDDiscriminator32_forward (example_discriminator 0) (example_flags (1 / 4))
     example_x (Some [3]) = Inr [[48]]"
proof -
  have h1: "SlimmableCGANPDDiscriminator32_init example_classes (example_flags 1) 10 2 0
     = Inr (example_discriminator 0)"
    by (simp add: example_init)
  have h2: "(0 :: int) = py_int (width_mult (example_flags (1 / 4)) / (1 / 4)) - 1"
    by (simp add: example_flags_def py_int_def)
  have h3: "(0 :: int) \<le> 0" by simp
  have h4: "(0 :: int) < int (length (width_mult_list (example_flags 1)))"
    by (simp add: example_flags_def)
  have h5: "d_blocks (branch (block1s (example_discriminator 0)) (n_share (example_discriminator 0) > 0) (nat 0))
     (branch (block2s (example_discriminator 0)) (n_share (example_discriminator 0) > 1) (nat 0))
     (branch (block3s (example_discriminator 0)) (n_share (example_discriminator 0) > 2) (nat 0))
     (branch (block4s (example_discriminator 0)) (n_share (example_discriminator 0) > 3) (nat 0))
     example_x = Inr example_x"
    by (simp add: example_discriminator_def branch_def d_blocks_def upt_rec shift_def map4_def
        example_x_def)
  have h6: "has_shape4 example_x 1 2 2 2"
    by (simp add: has_shape4_def example_x_def)
  have h7: "[[10, 2]] = torch_sum_23 (activation example_x)"
    by (simp add: torch_sum_23_def activation_def map4_def example_x_def)
  have h8: "branch (l5s (example_discriminator 0)) (n_share (example_discriminator 0) = - 1)
     (nat 0) [[10, 2]] = Inr [[12]]"
    by (simp add: example_discriminator_def branch_def upt_rec scale_sum_def)
  have h9: "has_shape2 [[12]] 1 1"
    by (simp add: has_shape2_def)
  have h10: "(l_ys (example_discriminator 0) ! nat 0) [3] = Inr [[3, 3]]"
    by (simp add: example_discriminator_def upt_rec label_plus_def numeral_2_eq_2)
  have h11: "has_shape2 [[3, 3]] 1 2"
    by (simp add: has_shape2_def)
  have "SlimmableCGANPDDiscriminator32_forward (example_discriminator 0) (example_flags (1 / 4))
     example_x (Some [3]) = Inr [[48]]"
    using forward_gives_projection_logits [OF h1 h2 h3 h4 h5 h6 h7 h8 h9 h10 h11]
    by (auto simp: has_shape2_def length_Suc_conv numeral_2_eq_2 lessThan_Suc example_x_def)
  with h1 h2 h3 h4 h5 h6 h7 h8 h9 h10 h11 show ?thesis
    by blast
qed

subsection \<open>The shape and the range of the generator's output\<close>

lemma length_chunks [simp]: "length (chunks k m xs) = k"
  by (induction k arbitrary: xs) simp_all












subsection \<open>The example layers keep the promises on shapes\<close>

lemma length_double [simp]: "length (double xs) = 2 * length xs"
  by (induction xs) (simp_all add: double_def)

lemma set_double [simp]: "set (double xs) = set xs"
  by (induction xs) (auto simp: double_def)













end
